theory Spec2Isabelle
  imports Main "HOL-Library.AList"
begin

section \<open>JavaScript values and objects\<close>

text \<open>
  The values the ORM handles: property values of entity instances, SQL parameters and the
  members of a transport module. Numbers are modelled by integers (identifiers, offsets
  and row counts are integral).
\<close>

datatype jsval =
    JUndefined
  | JNull
  | JBool bool
  | JNum int
  | JStr string
  | JArr "jsval list"
  | JFun string

text \<open>JavaScript's truthiness, which decides every \<^verbatim>\<open>if (x)\<close>, \<^verbatim>\<open>!x\<close> and \<^verbatim>\<open>x || y\<close>.\<close>

fun truthy :: "jsval \<Rightarrow> bool" where
  "truthy JUndefined = False"
| "truthy JNull = False"
| "truthy (JBool b) = b"
| "truthy (JNum n) = (n \<noteq> 0)"
| "truthy (JStr s) = (s \<noteq> [])"
| "truthy (JArr xs) = True"
| "truthy (JFun f) = True"

text \<open>The \<^verbatim>\<open>typeof\<close> operator.\<close>

fun typeof :: "jsval \<Rightarrow> string" where
  "typeof JUndefined = ''undefined''"
| "typeof JNull = ''object''"
| "typeof (JBool b) = ''boolean''"
| "typeof (JNum n) = ''number''"
| "typeof (JStr s) = ''string''"
| "typeof (JArr xs) = ''object''"
| "typeof (JFun f) = ''function''"

text \<open>
  A plain object literal: its properties in insertion order, one entry per key.
  Assignment \<^verbatim>\<open>o[k] = v\<close> is \<^const>\<open>AList.update\<close>.
\<close>

type_synonym js_object = "(string \<times> jsval) list"

text \<open>
  The statics that a constructor function carries: \<^verbatim>\<open>taxonomyName\<close>, \<^verbatim>\<open>fields\<close> and the
  optional \<^verbatim>\<open>languageFields\<close> (\<open>None\<close> when the constructor does not define it).
\<close>

record entity_type =
  taxonomyName :: string
  fields' :: "string list"
  languageFields :: "string list option"

text \<open>
  An instance: its constructor and the properties that a read \<^verbatim>\<open>object[name]\<close> finds
  (\<^verbatim>\<open>id\<close>, \<^verbatim>\<open>language\<close> and the attribute values among them).
\<close>

record entity =
  constructor :: entity_type
  props :: js_object

text \<open>Reading a property; a missing one reads as \<^verbatim>\<open>undefined\<close>.\<close>

definition get_prop :: "entity \<Rightarrow> string \<Rightarrow> jsval" where
  "get_prop object name = (case map_of (props object) name of None \<Rightarrow> JUndefined | Some v \<Rightarrow> v)"

definition set_prop :: "entity \<Rightarrow> string \<Rightarrow> jsval \<Rightarrow> entity" where
  "set_prop object name v = object\<lparr>props := AList.update name v (props object)\<rparr>"


section \<open>The main module: field projection and the transport registry\<close>

text \<open>
  The loop shared by \<^verbatim>\<open>data\<close> and \<^verbatim>\<open>languageData\<close>:
  \<^verbatim>\<open>for (i = 0, l = fields.length; i < l; i++) values[fields[i]] = object[fields[i]];\<close>
\<close>

fun copy_fields :: "entity \<Rightarrow> string list \<Rightarrow> js_object \<Rightarrow> js_object" where
  "copy_fields object [] values = values"
| "copy_fields object (f # fs) values =
     copy_fields object fs (AList.update f (get_prop object f) values)"

definition data :: "entity \<Rightarrow> js_object" where
  "data object = copy_fields object (fields' (constructor object)) []"

definition languageData :: "entity \<Rightarrow> js_object" where
  "languageData object =
     (case languageFields (constructor object) of
        None \<Rightarrow> []
      | Some fs \<Rightarrow> copy_fields object fs [])"

text \<open>
  A module object as \<^verbatim>\<open>for (key in transport)\<close> sees it: its own enumerable properties,
  then the enumerable properties it inherits.
\<close>

record module =
  own :: js_object
  inherited :: js_object

definition hasOwnProperty :: "module \<Rightarrow> string \<Rightarrow> bool" where
  "hasOwnProperty m key = (map_of (own m) key \<noteq> None)"

definition member :: "module \<Rightarrow> string \<Rightarrow> jsval" where
  "member m key =
     (case map_of (own m) key of
        Some v \<Rightarrow> v
      | None \<Rightarrow> (case map_of (inherited m) key of Some v \<Rightarrow> v | None \<Rightarrow> JUndefined))"

definition for_in_keys :: "module \<Rightarrow> string list" where
  "for_in_keys m =
     map fst (own m) @ filter (\<lambda>k. \<not> hasOwnProperty m k) (map fst (inherited m))"

text \<open>
  The body of the loop in \<^verbatim>\<open>setTransport\<close>. The loop variable \<^verbatim>\<open>key\<close> is a property name,
  a string, and the test is \<^verbatim>\<open>typeof key === 'function'\<close>.
\<close>

fun setTransport_loop :: "module \<Rightarrow> string list \<Rightarrow> js_object \<Rightarrow> js_object" where
  "setTransport_loop transport [] exports = exports"
| "setTransport_loop transport (key # keys) exports =
     setTransport_loop transport keys
       (if hasOwnProperty transport key \<and> typeof (JStr key) = ''function''
        then AList.update key (member transport key) exports
        else exports)"

definition setTransport :: "js_object \<Rightarrow> module \<Rightarrow> js_object" where
  "setTransport exports transport = setTransport_loop transport (for_in_keys transport) exports"


section \<open>The SQL transport\<close>

subsection \<open>What the transport exchanges with the database clients\<close>

text \<open>
  An error object handed to a callback by the database client; a callback's \<^verbatim>\<open>err\<close>
  argument is \<open>None\<close> for \<^verbatim>\<open>null\<close> and \<open>Some e\<close> for an error object.
\<close>

datatype db_error = DbError string

text \<open>The result packet of a write statement; the transport reads its \<^verbatim>\<open>insertId\<close> only.\<close>

record query_result =
  insertId :: jsval

type_synonym row = js_object

text \<open>
  What a transport call does, in the order it does it: the statements it hands to the
  clients, the transaction calls, the assignment to \<^verbatim>\<open>object.id\<close> and the settling
  of the deferred it returns (\<open>Reject None\<close> is \<^verbatim>\<open>reject()\<close> without an argument).
  \<open>Throw\<close> is an exception that leaves the call; nothing follows it.
\<close>

datatype js_error = TypeError

datatype effect =
    ReadQuery string "jsval list"
  | WriteQuery string js_object
  | StartTransaction
  | TransQuery string js_object
  | Commit
  | Rollback
  | SetId jsval
  | Reject "db_error option"
  | Resolve entity
  | Throw js_error

text \<open>
  The callbacks the write client fires: the callback of a \<^verbatim>\<open>query\<close> call with
  \<^verbatim>\<open>(err, result)\<close>, and the callback of \<^verbatim>\<open>trans.commit\<close> with \<^verbatim>\<open>(err, result)\<close>.
\<close>

datatype event =
    StatementDone "db_error option" query_result
  | CommitDone "db_error option" query_result

text \<open>An optional string argument as the value the function body sees.\<close>

fun str_arg :: "string option \<Rightarrow> jsval" where
  "str_arg None = JUndefined"
| "str_arg (Some s) = JStr s"

text \<open>\<^verbatim>\<open>Array.prototype.join\<close>, and an array of names spliced into a string (\<^verbatim>\<open>'' + array\<close>).\<close>

fun join :: "string \<Rightarrow> string list \<Rightarrow> string" where
  "join sep [] = []"
| "join sep [x] = x"
| "join sep (x # y # ys) = x @ sep @ join sep (y # ys)"

definition names_to_string :: "string list \<Rightarrow> string" where
  "names_to_string names = join '','' names"

definition opt_names_to_string :: "string list option \<Rightarrow> string" where
  "opt_names_to_string names =
     (case names of None \<Rightarrow> ''undefined'' | Some ns \<Rightarrow> names_to_string ns)"

subsection \<open>get\<close>

definition get_query :: "entity_type \<Rightarrow> string option \<Rightarrow> string" where
  "get_query c language =
     (let tableName = taxonomyName c in
      if truthy (str_arg language)
      then ''SELECT '' @ names_to_string (fields' c) @ '','' @ opt_names_to_string (languageFields c)
           @ '' FROM '' @ tableName @ ''_language INNER JOIN '' @ tableName
           @ '' USING (id) WHERE id = ? AND language = ? LIMIT 1''
      else ''SELECT '' @ names_to_string (fields' c) @ '' FROM '' @ tableName
           @ '' WHERE id = ? LIMIT 1'')"

text \<open>
  The callback of the read query. \<open>create\<close> stands for \<^verbatim>\<open>constructor.create\<close>, which the
  entity type supplies; \<open>result\<close> is \<open>None\<close> when the client passes no rows object.
\<close>

definition get_callback ::
  "(row \<Rightarrow> entity) \<Rightarrow> db_error option \<Rightarrow> row list option \<Rightarrow> effect" where
  "get_callback create err result =
     (case err of
        Some e \<Rightarrow> Reject (Some e)
      | None \<Rightarrow>
          (case result of
             None \<Rightarrow> Reject None
           | Some [] \<Rightarrow> Reject None
           | Some (r # rs) \<Rightarrow> Resolve (create r)))"

text \<open>
  \<^verbatim>\<open>get\<close> with the one reply \<^verbatim>\<open>(err, result)\<close> of the read client to its query: the
  statement sent, then how the deferred is settled.
\<close>

definition get ::
  "entity_type \<Rightarrow> (row \<Rightarrow> entity) \<Rightarrow> jsval \<Rightarrow> string option
     \<Rightarrow> db_error option \<times> row list option \<Rightarrow> effect list" where
  "get c create ident language reply =
     [ReadQuery (get_query c language) [ident, str_arg language],
      get_callback create (fst reply) (snd reply)]"

subsection \<open>save\<close>

text \<open>
  The state of one \<^verbatim>\<open>save\<close> call: the object being saved, the transaction's
  \<^verbatim>\<open>rolledback\<close> flag, and the effects so far.
\<close>

record save_state =
  target :: entity
  rolledback :: bool
  log :: "effect list"

definition emit :: "effect list \<Rightarrow> save_state \<Rightarrow> save_state" where
  "emit es st = st\<lparr>log := log st @ es\<rparr>"

text \<open>
  Modelled from the spec: the transaction object comes from the mysql-queues package,
  which is not part of the repository. Its \<^verbatim>\<open>rollback\<close> aborts the transaction and
  marks it as rolled back, which is the flag \<^verbatim>\<open>trans.rolledback\<close> that \<^verbatim>\<open>onError\<close> reads.
\<close>

definition rollback :: "save_state \<Rightarrow> save_state" where
  "rollback st = emit [Rollback] (st\<lparr>rolledback := True\<rparr>)"

definition onError :: "db_error option \<Rightarrow> save_state \<Rightarrow> save_state" where
  "onError err st =
     (if err \<noteq> None \<and> \<not> rolledback st
      then emit [Reject err] (rollback st)
      else st)"

definition commit_callback :: "db_error option \<Rightarrow> query_result \<Rightarrow> save_state \<Rightarrow> save_state" where
  "commit_callback err result st =
     (case err of
        Some e \<Rightarrow> emit [Reject (Some e)] st
      | None \<Rightarrow>
          (let object = target st in
           if \<not> truthy (get_prop object ''id'') \<and> truthy (insertId result)
           then (let object' = set_prop object ''id'' (insertId result)
                 in emit [SetId (insertId result), Resolve object'] (st\<lparr>target := object'\<rparr>))
           else emit [Resolve object] st))"

fun saveWithLanguage_event :: "event \<Rightarrow> save_state \<Rightarrow> save_state" where
  "saveWithLanguage_event (StatementDone err result) st = onError err st"
| "saveWithLanguage_event (CommitDone err result) st = commit_callback err result st"

text \<open>
  Inside the SQL transport, \<^verbatim>\<open>exports\<close> is that module's own export object. These are the
  members the module assigns to it.
\<close>

definition sql_exports :: module where
  "sql_exports = \<lparr>own = [(''connect'', JFun ''connect''), (''remove'', JFun ''remove''),
                         (''removeLanguage'', JFun ''removeLanguage''), (''get'', JFun ''get''),
                         (''getOtherLanguages'', JFun ''getOtherLanguages''),
                         (''save'', JFun ''save''), (''searchByField'', JFun ''searchByField'')],
                  inherited = []\<rparr>"

text \<open>A call \<^verbatim>\<open>m.name(...)\<close> raises a TypeError unless the member is a function.\<close>

definition callable :: "module \<Rightarrow> string \<Rightarrow> bool" where
  "callable m name = (typeof (member m name) = ''function'')"

text \<open>
  \<^verbatim>\<open>saveWithLanguage\<close> starts the transaction and then evaluates the arguments of the first
  \<^verbatim>\<open>trans.query\<close> call, among them \<^verbatim>\<open>exports.data(object)\<close>; the arguments of the second
  call contain \<^verbatim>\<open>exports.languageData(object)\<close>. An exception in an argument leaves the
  function before the statement is queued and before \<^verbatim>\<open>onError\<close> is handed over. Where a
  member of that name is a function it is taken to be the projection of the main module.
\<close>

definition saveWithLanguage :: "entity \<Rightarrow> event list \<Rightarrow> save_state" where
  "saveWithLanguage object events =
     (let c = constructor object;
          started = \<lparr>target = object, rolledback = False, log = [StartTransaction]\<rparr>
      in if \<not> callable sql_exports ''data''
         then emit [Throw TypeError] started
         else
           (let queued = emit [TransQuery (''INSERT INTO '' @ taxonomyName c
                                           @ '' SET ? ON DUPLICATE KEY UPDATE'')
                                 (data object)] started
            in if \<not> callable sql_exports ''languageData''
               then emit [Throw TypeError] queued
               else fold saveWithLanguage_event events
                      (emit [TransQuery (''INSERT INTO '' @ taxonomyName c
                                         @ ''_language SET ? ON DUPLICATE KEY UPDATE'')
                               (languageData object),
                             Commit] queued)))"

definition save_callback :: "db_error option \<Rightarrow> query_result \<Rightarrow> save_state \<Rightarrow> save_state" where
  "save_callback err result st =
     (case err of
        Some e \<Rightarrow> emit [Reject (Some e)] st
      | None \<Rightarrow>
          (let object = target st in
           if \<not> truthy (get_prop object ''id'') \<and> truthy (insertId result)
           then (let object' = set_prop object ''id'' (insertId result)
                 in emit [SetId (insertId result), Resolve object'] (st\<lparr>target := object'\<rparr>))
           else emit [Resolve object] st))"

text \<open>
  Outside a transaction the only callback registered is the one of the single query.
  \<^verbatim>\<open>save\<close> reaches the projection as \<^verbatim>\<open>this.data(object)\<close>; it is called on the public
  surface, where \<^verbatim>\<open>data\<close> is the main module's projection.
\<close>

fun save_event :: "event \<Rightarrow> save_state \<Rightarrow> save_state" where
  "save_event (StatementDone err result) st = save_callback err result st"
| "save_event (CommitDone err result) st = st"

definition save :: "entity \<Rightarrow> event list \<Rightarrow> save_state" where
  "save object events =
     (let c = constructor object in
      if truthy (get_prop object ''language'') \<and> truthy (get_prop object ''languageFields'')
      then saveWithLanguage object events
      else fold save_event events
             \<lparr>target = object, rolledback = False,
              log = [WriteQuery (''INSERT INTO '' @ taxonomyName c
                                 @ '' SET ? ON DUPLICATE KEY UPDATE'')
                       (data object)]\<rparr>)"

subsection \<open>searchByField\<close>

text \<open>The statement and its parameters up to the \<^verbatim>\<open>WHERE\<close> condition.\<close>

definition search_select ::
  "entity_type \<Rightarrow> string \<Rightarrow> jsval \<Rightarrow> string option \<Rightarrow> string \<times> jsval list" where
  "search_select c field val language =
     (let tableName = taxonomyName c in
      if truthy (str_arg language)
      then (''SELECT '' @ names_to_string (fields' c) @ '','' @ opt_names_to_string (languageFields c)
            @ '' FROM '' @ tableName @ ''_language INNER JOIN '' @ tableName
            @ '' USING (id) WHERE ? = ? AND language = ?'',
            [JStr field, val, str_arg language])
      else (''SELECT '' @ names_to_string (fields' c) @ '' FROM '' @ tableName @ '' WHERE ? = ?'',
            [JStr field, val]))"

text \<open>\<^verbatim>\<open>if (orderBy && (orderDirection === 'desc' || orderDirection === 'asc'))\<close>\<close>

text \<open>An optional string spliced into a text (\<^verbatim>\<open>'...' + orderDirection\<close>).\<close>

fun str_text :: "string option \<Rightarrow> string" where
  "str_text None = ''undefined''"
| "str_text (Some s) = s"

definition search_order ::
  "string option \<Rightarrow> string option \<Rightarrow> string \<times> jsval list \<Rightarrow> string \<times> jsval list" where
  "search_order orderBy orderDirection qv =
     (if truthy (str_arg orderBy)
         \<and> (orderDirection = Some ''desc'' \<or> orderDirection = Some ''asc'')
      then (fst qv @ '' ORDER BY ? '' @ str_text orderDirection, snd qv @ [str_arg orderBy])
      else qv)"

text \<open>\<^verbatim>\<open>if (!limitTo || limitTo > limitMax) limitTo = limitMax;\<close>\<close>

definition search_limitTo :: "int \<Rightarrow> int option \<Rightarrow> int" where
  "search_limitTo limitMax limitTo =
     (case limitTo of
        None \<Rightarrow> limitMax
      | Some n \<Rightarrow> if \<not> truthy (JNum n) \<or> n > limitMax then limitMax else n)"

text \<open>\<^verbatim>\<open>limitFrom || 0\<close>\<close>

definition search_limitFrom :: "int option \<Rightarrow> int" where
  "search_limitFrom limitFrom =
     (case limitFrom of None \<Rightarrow> 0 | Some n \<Rightarrow> if truthy (JNum n) then n else 0)"

text \<open>The statement and the parameter list that \<^verbatim>\<open>searchByField\<close> hands to the read client.\<close>

definition searchByField ::
  "entity_type \<Rightarrow> string \<Rightarrow> jsval \<Rightarrow> string option \<Rightarrow> string option \<Rightarrow> string option
     \<Rightarrow> int option \<Rightarrow> int option \<Rightarrow> string \<times> jsval list" where
  "searchByField c field val language orderBy orderDirection limitFrom limitTo =
     (let limitMax = 1000;
          qv = search_order orderBy orderDirection (search_select c field val language);
          limitTo' = search_limitTo limitMax limitTo
      in (fst qv @ ''LIMIT ?, ?'',
          snd qv @ [JNum (search_limitFrom limitFrom), JNum limitTo']))"

text \<open>Whether a text occurs somewhere in a string (\<^verbatim>\<open>s.indexOf(sub) !== -1\<close>).\<close>

fun occurs_in :: "string \<Rightarrow> string \<Rightarrow> bool" where
  "occurs_in sub [] = (sub = [])"
| "occurs_in sub (c # cs) = (take (length sub) (c # cs) = sub \<or> occurs_in sub cs)"


section \<open>Example data\<close>

definition articles :: entity_type where
  "articles = \<lparr>taxonomyName = ''articles'', fields' = [''title'', ''authorId''],
               languageFields = Some [''body'']\<rparr>"

text \<open>An unsaved English article; it carries a property that the type does not declare.\<close>

definition article_en :: entity where
  "article_en = \<lparr>constructor = articles,
                 props = [(''title'', JStr ''X''), (''authorId'', JNum 7),
                          (''language'', JStr ''en''), (''body'', JStr ''hello''),
                          (''draft'', JBool True)]\<rparr>"


text \<open>A transport module with the six operations of the contract and a piece of state.\<close>

definition sql_transport :: module where
  "sql_transport = \<lparr>own = [(''get'', JFun ''get''), (''save'', JFun ''save''),
                           (''remove'', JFun ''remove''),
                           (''removeLanguage'', JFun ''removeLanguage''),
                           (''searchByField'', JFun ''searchByField''),
                           (''getOtherLanguages'', JFun ''getOtherLanguages''),
                           (''connected'', JNum 2)],
                    inherited = []\<rparr>"

text \<open>The main module's own exports before a transport is installed.\<close>

definition main_exports :: js_object where
  "main_exports = [(''create'', JFun ''create''), (''createList'', JFun ''createList''),
                   (''data'', JFun ''data''), (''languageData'', JFun ''languageData''),
                   (''setTransport'', JFun ''setTransport'')]"


section \<open>Field projection\<close>

lemma copy_fields_keys:
  "fst ` set (copy_fields object fs acc) = set fs \<union> fst ` set acc"
  by (induction fs arbitrary: acc) (auto simp: dom_update)

lemma copy_fields_distinct:
  "distinct (map fst acc) \<Longrightarrow> distinct (map fst (copy_fields object fs acc))"
  by (induction fs arbitrary: acc) (auto simp: distinct_update)

lemma copy_fields_lookup:
  "map_of (copy_fields object fs acc) name =
     (if name \<in> set fs then Some (get_prop object name) else map_of acc name)"
  by (induction fs arbitrary: acc) (auto simp: update_conv')

text \<open>
  Claim C8. The base projection has exactly the declared \<^verbatim>\<open>fields\<close> as its keys, the
  language projection exactly the declared \<^verbatim>\<open>languageFields\<close> (no key at all when the
  type declares none), each key once, whatever other properties the instance carries;
  the value under a key is the instance's property of that name.
\<close>

theorem projection_keys_exact:
  "fst ` set (data object) = set (fields' (constructor object))
   \<and> fst ` set (languageData object) =
       (case languageFields (constructor object) of None \<Rightarrow> {} | Some fs \<Rightarrow> set fs)
   \<and> distinct (map fst (data object)) \<and> distinct (map fst (languageData object))
   \<and> (\<forall>name \<in> fst ` set (data object). map_of (data object) name = Some (get_prop object name))
   \<and> (\<forall>name \<in> fst ` set (languageData object).
         map_of (languageData object) name = Some (get_prop object name))"
proof -
  have keys: "fst ` set (data object) = set (fields' (constructor object))"
    by (simp add: data_def copy_fields_keys)
  have lkeys: "fst ` set (languageData object) =
      (case languageFields (constructor object) of None \<Rightarrow> {} | Some fs \<Rightarrow> set fs)"
    by (simp add: languageData_def copy_fields_keys split: option.split)
  have d: "distinct (map fst (data object))"
    by (simp add: data_def copy_fields_distinct)
  have ld: "distinct (map fst (languageData object))"
    by (simp add: languageData_def copy_fields_distinct split: option.split)
  have v: "\<forall>name \<in> fst ` set (data object). map_of (data object) name = Some (get_prop object name)"
    unfolding keys by (simp add: data_def copy_fields_lookup)
  have lv: "\<forall>name \<in> fst ` set (languageData object).
      map_of (languageData object) name = Some (get_prop object name)"
    unfolding lkeys by (simp add: languageData_def copy_fields_lookup split: option.split)
  from keys lkeys d ld v lv show ?thesis by blast
qed

theorem projection_keys_exact_witness:
  "fst ` set (data article_en) = {''title'', ''authorId''}
   \<and> fst ` set (languageData article_en) = {''body''}
   \<and> ''draft'' \<notin> fst ` set (data article_en) \<union> fst ` set (languageData article_en)
   \<and> map_of (data article_en) ''title'' = Some (JStr ''X'')
   \<and> map_of (languageData article_en) ''body'' = Some (JStr ''hello'')
   \<and> fst ` set (languageData (article_en\<lparr>constructor := articles\<lparr>languageFields := None\<rparr>\<rparr>)) = {}"
proof -
  have f: "fields' (constructor article_en) = [''title'', ''authorId'']"
    and l: "languageFields (constructor article_en) = Some [''body'']"
    and t: "get_prop article_en ''title'' = JStr ''X''"
    and b: "get_prop article_en ''body'' = JStr ''hello''"
    by (simp_all add: article_en_def articles_def get_prop_def)
  note p = projection_keys_exact [of article_en, unfolded f l option.case]
  have k: "fst ` set (data article_en) = {''title'', ''authorId''}"
    and lk: "fst ` set (languageData article_en) = {''body''}"
    using p by simp_all
  have "''title'' \<in> fst ` set (data article_en)" "''body'' \<in> fst ` set (languageData article_en)"
    unfolding k lk by simp_all
  with p t b have v: "map_of (data article_en) ''title'' = Some (JStr ''X'')"
    "map_of (languageData article_en) ''body'' = Some (JStr ''hello'')"
    by metis+
  have n: "fst ` set (languageData (article_en\<lparr>constructor := articles\<lparr>languageFields := None\<rparr>\<rparr>)) = {}"
    using projection_keys_exact [of "article_en\<lparr>constructor := articles\<lparr>languageFields := None\<rparr>\<rparr>"]
    by simp
  have d: "''draft'' \<notin> fst ` set (data article_en) \<union> fst ` set (languageData article_en)"
    unfolding k lk by simp
  from k lk d v n show ?thesis by blast
qed


section \<open>The transport registry\<close>

text \<open>
  The test \<^verbatim>\<open>typeof key === 'function'\<close> is applied to the property name, which is a
  string, so no iteration of the loop assigns to \<^verbatim>\<open>exports\<close>.
\<close>

lemma setTransport_loop_unchanged:
  "setTransport_loop transport keys exports = exports"
  by (induction keys arbitrary: exports) simp_all

lemma setTransport_unchanged: "setTransport exports transport = exports"
  by (simp add: setTransport_def setTransport_loop_unchanged)

text \<open>
  Claim C4. Installing a transport should copy each of its own function-valued
  properties onto the public surface. For a transport with the six operations of the
  contract, \<^verbatim>\<open>setTransport\<close> returns the exports as they were: \<^verbatim>\<open>get\<close> is an own property
  of the transport and a function, and is still missing from the public surface.
\<close>

theorem setTransport_installs_no_operation:
  "setTransport main_exports sql_transport = main_exports
   \<and> hasOwnProperty sql_transport ''get''
   \<and> typeof (member sql_transport ''get'') = ''function''
   \<and> map_of (setTransport main_exports sql_transport) ''get'' = None"
  by (simp add: setTransport_unchanged hasOwnProperty_def member_def sql_transport_def
      main_exports_def)


section \<open>Query construction in searchByField\<close>

lemma search_limitTo_le: "search_limitTo 1000 limitTo \<le> 1000"
  by (simp add: search_limitTo_def split: option.split)

lemma searchByField_values_last:
  "last (snd (searchByField c field val language orderBy orderDirection limitFrom limitTo))
     = JNum (search_limitTo 1000 limitTo)"
  by (simp add: searchByField_def Let_def)

lemma searchByField_values_butlast:
  "last (butlast (snd (searchByField c field val language orderBy orderDirection limitFrom limitTo)))
     = JNum (search_limitFrom limitFrom)"
  by (simp add: searchByField_def Let_def butlast_append)

lemma search_select_last:
  "fst (search_select c field val language) \<noteq> []
   \<and> last (fst (search_select c field val language)) = CHR ''?''"
  by (simp add: search_select_def Let_def)

lemma search_order_last:
  assumes "fst qv \<noteq> [] \<and> last (fst qv) = CHR ''?''"
  shows "fst (search_order orderBy orderDirection qv) \<noteq> []
         \<and> last (fst (search_order orderBy orderDirection qv)) \<noteq> CHR '' ''"
  using assms by (auto simp: search_order_def)

lemma searchByField_query:
  "fst (searchByField c field val language orderBy orderDirection limitFrom limitTo)
     = fst (search_order orderBy orderDirection (search_select c field val language))
       @ ''LIMIT ?, ?''"
  by (simp add: searchByField_def Let_def)

lemma searchByField_values:
  "snd (searchByField c field val language orderBy orderDirection limitFrom limitTo)
     = snd (search_order orderBy orderDirection (search_select c field val language))
       @ [JNum (search_limitFrom limitFrom), JNum (search_limitTo 1000 limitTo)]"
  by (simp add: searchByField_def Let_def)

lemma search_plain_query:
  assumes "\<not> truthy (str_arg language)"
    and "\<not> (truthy (str_arg orderBy)
            \<and> (orderDirection = Some ''desc'' \<or> orderDirection = Some ''asc''))"
  shows "fst (search_order orderBy orderDirection (search_select c field val language))
           = ''SELECT '' @ names_to_string (fields' c) @ '' FROM '' @ taxonomyName c
             @ '' WHERE ? = ?''"
  using assms by (simp add: search_order_def search_select_def Let_def)

text \<open>
  Claim C3. The row count handed to the read client as the last parameter (the second
  placeholder of \<^verbatim>\<open>LIMIT ?, ?\<close>) is at most 1000: it is 1000 when \<^verbatim>\<open>limitTo\<close> is absent or
  greater than 1000 and the requested value when that is non-zero and at most 1000, so a
  request for 5000 builds the same statement and parameters as a request for 1000; the
  offset before it is 0 when \<^verbatim>\<open>limitFrom\<close> is absent.
\<close>

theorem searchByField_limit_clamped:
  "(\<exists>n. last (snd (searchByField c field val language orderBy orderDirection limitFrom limitTo))
          = JNum n \<and> n \<le> 1000)
   \<and> (limitTo = None \<or> (\<exists>n. limitTo = Some n \<and> n > 1000) \<longrightarrow>
        last (snd (searchByField c field val language orderBy orderDirection limitFrom limitTo))
          = JNum 1000)
   \<and> (\<forall>n. limitTo = Some n \<and> n \<noteq> 0 \<and> n \<le> 1000 \<longrightarrow>
        last (snd (searchByField c field val language orderBy orderDirection limitFrom limitTo))
          = JNum n)
   \<and> (\<forall>n > 1000.
        searchByField c field val language orderBy orderDirection limitFrom (Some n)
          = searchByField c field val language orderBy orderDirection limitFrom (Some 1000))
   \<and> searchByField c field val language orderBy orderDirection limitFrom (Some 5000)
        = searchByField c field val language orderBy orderDirection limitFrom (Some 1000)
   \<and> (limitFrom = None \<longrightarrow>
        last (butlast (snd (searchByField c field val language orderBy orderDirection
                             limitFrom limitTo))) = JNum 0)"
proof -
  have a: "\<exists>n. last (snd (searchByField c field val language orderBy orderDirection limitFrom limitTo))
          = JNum n \<and> n \<le> 1000"
    by (simp add: searchByField_values_last search_limitTo_le)
  have b: "limitTo = None \<or> (\<exists>n. limitTo = Some n \<and> n > 1000) \<longrightarrow>
        last (snd (searchByField c field val language orderBy orderDirection limitFrom limitTo))
          = JNum 1000"
    by (auto simp: searchByField_values_last search_limitTo_def)
  have c: "\<forall>n. limitTo = Some n \<and> n \<noteq> 0 \<and> n \<le> 1000 \<longrightarrow>
        last (snd (searchByField c field val language orderBy orderDirection limitFrom limitTo))
          = JNum n"
    by (auto simp: searchByField_values_last search_limitTo_def)
  have d: "\<forall>n > 1000.
        searchByField c field val language orderBy orderDirection limitFrom (Some n)
          = searchByField c field val language orderBy orderDirection limitFrom (Some 1000)"
    by (simp add: searchByField_def search_limitTo_def)
  have e: "searchByField c field val language orderBy orderDirection limitFrom (Some 5000)
        = searchByField c field val language orderBy orderDirection limitFrom (Some 1000)"
    by (simp add: searchByField_def search_limitTo_def)
  have f: "limitFrom = None \<longrightarrow>
        last (butlast (snd (searchByField c field val language orderBy orderDirection
                             limitFrom limitTo))) = JNum 0"
    by (simp add: searchByField_values_butlast search_limitFrom_def)
  from a b c d e f show ?thesis by blast
qed

theorem searchByField_limit_clamped_witness:
  "last (snd (searchByField articles ''title'' (JStr ''X'') None None None None (Some 5000)))
     = JNum 1000
   \<and> last (snd (searchByField articles ''title'' (JStr ''X'') None None None None None))
     = JNum 1000
   \<and> last (snd (searchByField articles ''title'' (JStr ''X'') None None None None (Some 20)))
     = JNum 20
   \<and> searchByField articles ''title'' (JStr ''X'') None None None None (Some 5000)
     = searchByField articles ''title'' (JStr ''X'') None None None None (Some 1000)
   \<and> last (butlast (snd (searchByField articles ''title'' (JStr ''X'') None None None None
                           (Some 5000)))) = JNum 0"
proof -
  note big = searchByField_limit_clamped
      [of articles "''title''" "JStr ''X''" None None None None "Some 5000"]
  note absent = searchByField_limit_clamped
      [of articles "''title''" "JStr ''X''" None None None None None]
  note small = searchByField_limit_clamped
      [of articles "''title''" "JStr ''X''" None None None None "Some 20"]
  have hb: "Some (5000::int) = None \<or> (\<exists>n. Some (5000::int) = Some n \<and> n > 1000)"
    by simp
  have ha: "(None :: int option) = None \<or> (\<exists>n. (None :: int option) = Some n \<and> n > 1000)"
    by simp
  have hs: "Some (20::int) = Some 20 \<and> (20::int) \<noteq> 0 \<and> (20::int) \<le> 1000"
    by simp
  note a = big [THEN conjunct2, THEN conjunct1, THEN mp, OF hb]
  note b = absent [THEN conjunct2, THEN conjunct1, THEN mp, OF ha]
  note c = small [THEN conjunct2, THEN conjunct2, THEN conjunct1, THEN spec, of 20, THEN mp, OF hs]
  note d = big [THEN conjunct2, THEN conjunct2, THEN conjunct2, THEN conjunct2, THEN conjunct1]
  note e = big [THEN conjunct2, THEN conjunct2, THEN conjunct2, THEN conjunct2, THEN conjunct2,
      THEN mp, OF refl]
  from a b c d e show ?thesis by (intro conjI)
qed

text \<open>
  Claim C10. A \<^verbatim>\<open>limitTo\<close> of 0 is falsy, so it is treated like an absent one: the
  statement and parameters are those of a request for 1000 rows.
\<close>

theorem searchByField_limitTo_zero:
  "searchByField c field val language orderBy orderDirection limitFrom (Some 0)
     = searchByField c field val language orderBy orderDirection limitFrom (Some 1000)
   \<and> searchByField c field val language orderBy orderDirection limitFrom (Some 0)
     = searchByField c field val language orderBy orderDirection limitFrom None
   \<and> last (snd (searchByField c field val language orderBy orderDirection limitFrom (Some 0)))
     = JNum 1000"
  by (simp add: searchByField_def search_limitTo_def Let_def)

theorem searchByField_limitTo_zero_witness:
  "searchByField articles ''title'' (JStr ''X'') (Some ''en'') None None (Some 10) (Some 0)
     = searchByField articles ''title'' (JStr ''X'') (Some ''en'') None None (Some 10) (Some 1000)
   \<and> last (snd (searchByField articles ''title'' (JStr ''X'') (Some ''en'') None None (Some 10)
                  (Some 0))) = JNum 1000"
proof -
  note z = searchByField_limitTo_zero
      [of articles "''title''" "JStr ''X''" "Some ''en''" None None "Some 10"]
  from z [THEN conjunct1] z [THEN conjunct2, THEN conjunct2] show ?thesis by (rule conjI)
qed

text \<open>
  Claim C9. The statement text ends in \<^verbatim>\<open>LIMIT ?, ?\<close>, appended directly to the preceding
  clause: what precedes it is not empty and does not end in a space. Without a language
  and without ordering the text ends in \<^verbatim>\<open>? = ?LIMIT ?, ?\<close>.
\<close>

theorem searchByField_limit_unspaced:
  "(\<exists>pre. fst (searchByField c field val language orderBy orderDirection limitFrom limitTo)
            = pre @ ''LIMIT ?, ?'' \<and> pre \<noteq> [] \<and> last pre \<noteq> CHR '' '')
   \<and> (\<not> truthy (str_arg language)
        \<and> \<not> (truthy (str_arg orderBy)
               \<and> (orderDirection = Some ''desc'' \<or> orderDirection = Some ''asc'')) \<longrightarrow>
       (\<exists>pre. fst (searchByField c field val language orderBy orderDirection limitFrom limitTo)
              = pre @ ''? = ?LIMIT ?, ?''))"
proof (rule conjI)
  let ?q = "fst (searchByField c field val language orderBy orderDirection limitFrom limitTo)"
  let ?pre = "fst (search_order orderBy orderDirection (search_select c field val language))"
  have p: "?pre \<noteq> [] \<and> last ?pre \<noteq> CHR '' ''"
    by (rule search_order_last) (rule search_select_last)
  show "\<exists>pre. ?q = pre @ ''LIMIT ?, ?'' \<and> pre \<noteq> [] \<and> last pre \<noteq> CHR '' ''"
  proof (intro exI conjI)
    show "?q = ?pre @ ''LIMIT ?, ?''" by (rule searchByField_query)
    show "?pre \<noteq> []" using p by (rule conjunct1)
    show "last ?pre \<noteq> CHR '' ''" using p by (rule conjunct2)
  qed
  show "\<not> truthy (str_arg language)
        \<and> \<not> (truthy (str_arg orderBy)
               \<and> (orderDirection = Some ''desc'' \<or> orderDirection = Some ''asc'')) \<longrightarrow>
       (\<exists>pre. ?q = pre @ ''? = ?LIMIT ?, ?'')"
  proof (rule impI)
    assume h: "\<not> truthy (str_arg language)
        \<and> \<not> (truthy (str_arg orderBy)
               \<and> (orderDirection = Some ''desc'' \<or> orderDirection = Some ''asc''))"
    have "?pre = ''SELECT '' @ names_to_string (fields' c) @ '' FROM '' @ taxonomyName c
                 @ '' WHERE ? = ?''"
      using h [THEN conjunct1] h [THEN conjunct2] by (rule search_plain_query)
    then have e: "?q = (''SELECT '' @ names_to_string (fields' c) @ '' FROM '' @ taxonomyName c
                        @ '' WHERE '') @ ''? = ?LIMIT ?, ?''"
      by (simp only: searchByField_query append_assoc append_Cons append_Nil)
    show "\<exists>pre. ?q = pre @ ''? = ?LIMIT ?, ?''"
    proof (rule exI)
      show "?q = (''SELECT '' @ names_to_string (fields' c) @ '' FROM '' @ taxonomyName c
                  @ '' WHERE '') @ ''? = ?LIMIT ?, ?''"
        by (fact e)
    qed
  qed
qed

theorem searchByField_limit_unspaced_witness:
  "(\<exists>pre. fst (searchByField articles ''title'' (JStr ''X'') None (Some ''title'') (Some ''up'')
                 None None)
            = pre @ ''LIMIT ?, ?'' \<and> pre \<noteq> [] \<and> last pre \<noteq> CHR '' '')
   \<and> (\<exists>pre. fst (searchByField articles ''title'' (JStr ''X'') None (Some ''title'') (Some ''up'')
                 None None)
            = pre @ ''? = ?LIMIT ?, ?'')"
proof -
  have h: "\<not> truthy (str_arg None)
        \<and> \<not> (truthy (str_arg (Some ''title''))
               \<and> (Some ''up'' = Some ''desc'' \<or> Some ''up'' = Some ''asc''))"
    by simp
  note t = searchByField_limit_unspaced [of articles "''title''" "JStr ''X''" None
      "Some ''title''" "Some ''up''" None None]
  from t [THEN conjunct1] t [THEN conjunct2, THEN mp, OF h] show ?thesis by (rule conjI)
qed

text \<open>
  Claim C5, as the code has it. The statement and the parameters extend those of the
  \<^verbatim>\<open>SELECT ... WHERE\<close> part. The text added after that part contains \<^verbatim>\<open>ORDER BY\<close>, and the
  parameters added after that part contain the \<^verbatim>\<open>orderBy\<close> value, if and only if
  \<^verbatim>\<open>orderBy\<close> is truthy (given and not the empty string) and \<^verbatim>\<open>orderDirection\<close> is exactly
  \<^verbatim>\<open>asc\<close> or \<^verbatim>\<open>desc\<close>.
\<close>

theorem searchByField_order_clause_iff:
  "take (length (fst (search_select c field val language)))
        (fst (searchByField c field val language orderBy orderDirection limitFrom limitTo))
     = fst (search_select c field val language)
   \<and> take (length (snd (search_select c field val language)))
        (snd (searchByField c field val language orderBy orderDirection limitFrom limitTo))
     = snd (search_select c field val language)
   \<and> (occurs_in ''ORDER BY''
        (drop (length (fst (search_select c field val language)))
           (fst (searchByField c field val language orderBy orderDirection limitFrom limitTo)))
      \<longleftrightarrow> truthy (str_arg orderBy)
           \<and> (orderDirection = Some ''asc'' \<or> orderDirection = Some ''desc''))
   \<and> (str_arg orderBy
        \<in> set (drop (length (snd (search_select c field val language)))
             (snd (searchByField c field val language orderBy orderDirection limitFrom limitTo)))
      \<longleftrightarrow> truthy (str_arg orderBy)
           \<and> (orderDirection = Some ''asc'' \<or> orderDirection = Some ''desc''))"
proof -
  let ?sel = "search_select c field val language"
  let ?res = "searchByField c field val language orderBy orderDirection limitFrom limitTo"
  let ?cond = "truthy (str_arg orderBy)
           \<and> (orderDirection = Some ''asc'' \<or> orderDirection = Some ''desc'')"
  have q: "fst ?res = fst ?sel @ (if ?cond then '' ORDER BY ? '' @ str_text orderDirection else [])
                      @ ''LIMIT ?, ?''"
    by (auto simp: searchByField_query search_order_def)
  have v: "snd ?res = snd ?sel @ (if ?cond then [str_arg orderBy] else [])
                      @ [JNum (search_limitFrom limitFrom), JNum (search_limitTo 1000 limitTo)]"
    by (auto simp: searchByField_values search_order_def)
  have a: "take (length (fst ?sel)) (fst ?res) = fst ?sel"
    unfolding q by simp
  have b: "take (length (snd ?sel)) (snd ?res) = snd ?sel"
    unfolding v by simp
  have n: "\<not> occurs_in ''ORDER BY'' ''LIMIT ?, ?''"
    by simp
  have y: "occurs_in ''ORDER BY'' ('' ORDER BY ? '' @ dir @ ''LIMIT ?, ?'')" for dir
    by simp
  have c: "occurs_in ''ORDER BY'' (drop (length (fst ?sel)) (fst ?res)) \<longleftrightarrow> ?cond"
  proof (cases ?cond)
    case True
    then show ?thesis unfolding q using y by simp
  next
    case False
    then show ?thesis unfolding q using n by simp
  qed
  have d: "str_arg orderBy \<in> set (drop (length (snd ?sel)) (snd ?res)) \<longleftrightarrow> ?cond"
    unfolding v by (cases orderBy) auto
  from a b c d show ?thesis by (intro conjI)
qed

theorem searchByField_order_clause_iff_witness:
  "occurs_in ''ORDER BY''
     (drop (length (fst (search_select articles ''authorId'' (JNum 7) None)))
        (fst (searchByField articles ''authorId'' (JNum 7) None (Some ''title'') (Some ''asc'')
                None None)))
   \<and> JStr ''title''
       \<in> set (drop (length (snd (search_select articles ''authorId'' (JNum 7) None)))
             (snd (searchByField articles ''authorId'' (JNum 7) None (Some ''title'') (Some ''asc'')
                     None None)))
   \<and> \<not> occurs_in ''ORDER BY''
     (drop (length (fst (search_select articles ''authorId'' (JNum 7) None)))
        (fst (searchByField articles ''authorId'' (JNum 7) None (Some ''title'') (Some ''ASC'')
                None None)))
   \<and> JStr ''title''
       \<notin> set (drop (length (snd (search_select articles ''authorId'' (JNum 7) None)))
             (snd (searchByField articles ''authorId'' (JNum 7) None (Some ''title'') None
                     None None)))"
proof -
  note asc = searchByField_order_clause_iff
      [of articles "''authorId''" "JNum 7" None "Some ''title''" "Some ''asc''" None None]
  note upper = searchByField_order_clause_iff
      [of articles "''authorId''" "JNum 7" None "Some ''title''" "Some ''ASC''" None None]
  note absent = searchByField_order_clause_iff
      [of articles "''authorId''" "JNum 7" None "Some ''title''" None None None]
  have a: "occurs_in ''ORDER BY''
     (drop (length (fst (search_select articles ''authorId'' (JNum 7) None)))
        (fst (searchByField articles ''authorId'' (JNum 7) None (Some ''title'') (Some ''asc'')
                None None)))"
    using asc [THEN conjunct2, THEN conjunct2, THEN conjunct1] by simp
  have b: "JStr ''title''
       \<in> set (drop (length (snd (search_select articles ''authorId'' (JNum 7) None)))
             (snd (searchByField articles ''authorId'' (JNum 7) None (Some ''title'') (Some ''asc'')
                     None None)))"
    using asc [THEN conjunct2, THEN conjunct2, THEN conjunct2] by simp
  have c: "\<not> occurs_in ''ORDER BY''
     (drop (length (fst (search_select articles ''authorId'' (JNum 7) None)))
        (fst (searchByField articles ''authorId'' (JNum 7) None (Some ''title'') (Some ''ASC'')
                None None)))"
    using upper [THEN conjunct2, THEN conjunct2, THEN conjunct1] by simp
  have d: "JStr ''title''
       \<notin> set (drop (length (snd (search_select articles ''authorId'' (JNum 7) None)))
             (snd (searchByField articles ''authorId'' (JNum 7) None (Some ''title'') None
                     None None)))"
    using absent [THEN conjunct2, THEN conjunct2, THEN conjunct2] by simp
  from a b c d show ?thesis by (intro conjI)
qed

text \<open>
  Claim C5 as stated fails for an \<^verbatim>\<open>orderBy\<close> that is given as the empty string: with
  \<^verbatim>\<open>orderDirection\<close> \<^verbatim>\<open>asc\<close> no ordering clause is generated and the value is dropped.
\<close>

theorem searchByField_empty_orderBy_counterexample:
  "str_arg (Some '''') = JStr ''''
   \<and> searchByField articles ''authorId'' (JNum 7) None (Some '''') (Some ''asc'') None None
     = (''SELECT title,authorId FROM articles WHERE ? = ?LIMIT ?, ?'',
        [JStr ''authorId'', JNum 7, JNum 0, JNum 1000])
   \<and> \<not> occurs_in ''ORDER BY'' ''SELECT title,authorId FROM articles WHERE ? = ?LIMIT ?, ?''"
  by (simp add: searchByField_def search_order_def search_select_def search_limitTo_def
      search_limitFrom_def names_to_string_def articles_def Let_def)

section \<open>Single-entity lookup\<close>

lemma get_query_limit: "\<exists>pre. get_query c language = pre @ '' LIMIT 1''"
proof (cases "truthy (str_arg language)")
  case True
  show ?thesis
  proof (rule exI)
    show "get_query c language =
        (''SELECT '' @ names_to_string (fields' c) @ '','' @ opt_names_to_string (languageFields c)
           @ '' FROM '' @ taxonomyName c @ ''_language INNER JOIN '' @ taxonomyName c
           @ '' USING (id) WHERE id = ? AND language = ?'') @ '' LIMIT 1''"
      using True by (simp only: get_query_def Let_def if_True append_assoc append_Cons append_Nil)
  qed
next
  case False
  show ?thesis
  proof (rule exI)
    show "get_query c language =
        (''SELECT '' @ names_to_string (fields' c) @ '' FROM '' @ taxonomyName c
           @ '' WHERE id = ?'') @ '' LIMIT 1''"
      using False by (simp only: get_query_def Let_def if_False append_assoc append_Cons append_Nil)
  qed
qed

text \<open>
  Claim C6. The lookup statement ends in \<^verbatim>\<open>LIMIT 1\<close>. When the query fails the deferred is
  rejected with the client's error; when it yields no rows object or no row the deferred
  is rejected without a value (not found) and never resolved; otherwise it is resolved
  with the instance that \<^verbatim>\<open>constructor.create\<close> builds from the first row.
\<close>

theorem get_settles:
  "(\<exists>pre. get_query c language = pre @ '' LIMIT 1'')
   \<and> get c create ident language (Some e, result)
       = [ReadQuery (get_query c language) [ident, str_arg language], Reject (Some e)]
   \<and> get c create ident language (None, None)
       = [ReadQuery (get_query c language) [ident, str_arg language], Reject None]
   \<and> get c create ident language (None, Some [])
       = [ReadQuery (get_query c language) [ident, str_arg language], Reject None]
   \<and> get c create ident language (None, Some (r # rs))
       = [ReadQuery (get_query c language) [ident, str_arg language], Resolve (create r)]"
proof (intro conjI)
  show "\<exists>pre. get_query c language = pre @ '' LIMIT 1''" by (rule get_query_limit)
qed (simp_all add: get_def get_callback_def)

theorem get_settles_witness:
  "get articles (\<lambda>r. \<lparr>constructor = articles, props = r\<rparr>) (JNum 3) (Some ''fr'') (None, Some [])
     = [ReadQuery (get_query articles (Some ''fr'')) [JNum 3, JStr ''fr''], Reject None]
   \<and> get articles (\<lambda>r. \<lparr>constructor = articles, props = r\<rparr>) (JNum 3) (Some ''fr'')
         (Some (DbError ''connection lost''), None)
     = [ReadQuery (get_query articles (Some ''fr'')) [JNum 3, JStr ''fr''],
        Reject (Some (DbError ''connection lost''))]
   \<and> get articles (\<lambda>r. \<lparr>constructor = articles, props = r\<rparr>) (JNum 3) (Some ''fr'')
         (None, Some [[(''title'', JStr ''X'')], [(''title'', JStr ''Y'')]])
     = [ReadQuery (get_query articles (Some ''fr'')) [JNum 3, JStr ''fr''],
        Resolve \<lparr>constructor = articles, props = [(''title'', JStr ''X'')]\<rparr>]"
proof -
  note g = get_settles [of articles "Some ''fr''" "\<lambda>r. \<lparr>constructor = articles, props = r\<rparr>"
      "JNum 3"]
  have a: "get articles (\<lambda>r. \<lparr>constructor = articles, props = r\<rparr>) (JNum 3) (Some ''fr'')
      (None, Some [])
     = [ReadQuery (get_query articles (Some ''fr'')) [JNum 3, JStr ''fr''], Reject None]"
    using g [THEN conjunct2, THEN conjunct2, THEN conjunct2, THEN conjunct1] by simp
  have b: "get articles (\<lambda>r. \<lparr>constructor = articles, props = r\<rparr>) (JNum 3) (Some ''fr'')
         (Some (DbError ''connection lost''), None)
     = [ReadQuery (get_query articles (Some ''fr'')) [JNum 3, JStr ''fr''],
        Reject (Some (DbError ''connection lost''))]"
    using g [THEN conjunct2, THEN conjunct1, of "DbError ''connection lost''" None] by simp
  have c: "get articles (\<lambda>r. \<lparr>constructor = articles, props = r\<rparr>) (JNum 3) (Some ''fr'')
         (None, Some [[(''title'', JStr ''X'')], [(''title'', JStr ''Y'')]])
     = [ReadQuery (get_query articles (Some ''fr'')) [JNum 3, JStr ''fr''],
        Resolve \<lparr>constructor = articles, props = [(''title'', JStr ''X'')]\<rparr>]"
    using g [THEN conjunct2, THEN conjunct2, THEN conjunct2, THEN conjunct2,
        of "[(''title'', JStr ''X'')]" "[[(''title'', JStr ''Y'')]]"] by simp
  from a b c show ?thesis by (intro conjI)
qed

section \<open>Saving\<close>








text \<open>
  Claim C1. An instance with a language whose type declares \<^verbatim>\<open>languageFields\<close> should be
  saved in a transaction. \<^verbatim>\<open>save\<close> tests \<^verbatim>\<open>object.languageFields\<close>, a property of the
  instance, while the declaration is \<^verbatim>\<open>object.constructor.languageFields\<close>, where
  \<^verbatim>\<open>languageData\<close> reads it. The English article has a language and a type that declares
  \<^verbatim>\<open>body\<close>, yet \<^verbatim>\<open>save\<close> issues the single upsert of the base relation and starts no
  transaction.
\<close>

theorem save_takes_plain_path_despite_languageFields:
  "truthy (get_prop article_en ''language'')
   \<and> languageFields (constructor article_en) = Some [''body'']
   \<and> log (save article_en [])
     = [WriteQuery ''INSERT INTO articles SET ? ON DUPLICATE KEY UPDATE''
          [(''title'', JStr ''X''), (''authorId'', JNum 7)]]
   \<and> StartTransaction \<notin> set (log (save article_en []))"
  by (simp add: save_def Let_def data_def get_prop_def article_en_def articles_def)




subsection \<open>The transactional save\<close>

text \<open>
  The handler given to both statements of the transaction: the first error it sees rolls
  the transaction back and rejects the deferred with that error; once the transaction is
  rolled back, and for a call without error, it does nothing.
\<close>

lemma onError_ok: "onError None st = st"
  by (simp add: onError_def)

lemma onError_rolledback: "rolledback st \<Longrightarrow> onError err st = st"
  by (simp add: onError_def)

lemma onError_first:
  "\<not> rolledback st \<Longrightarrow>
     onError (Some e) st = st\<lparr>rolledback := True, log := log st @ [Rollback, Reject (Some e)]\<rparr>"
  by (simp add: onError_def rollback_def emit_def)


end
